theory Spec2Isabelle
  imports Complex_Main
begin

section \<open>Python values used by the onboarding backend\<close>

text \<open>
  The backend is one Python module (\<^verbatim>\<open>app.py\<close>). Its risk engine, its OCR post-processing
  and the two request handlers that write a decision are embedded here as HOL functions.
  Text is a \<^typ>\<open>string\<close>; a character stands for a code point below 256. A nullable
  column of the SQLite schema is an \<^typ>\<open>'a option\<close>, \<^term>\<open>None\<close> being NULL. An exception
  is a value of \<open>exn\<close> on the left of a sum.
\<close>

datatype exn = TypeError | ValueError | ZeroDivisionError | KeyError

text \<open>\<^verbatim>\<open>str.isspace\<close> on one character, for the code points below 256.\<close>

definition isspace :: "char \<Rightarrow> bool" where
  "isspace c =
     (let n = (of_char c :: nat)
      in (9 \<le> n \<and> n \<le> 13) \<or> (28 \<le> n \<and> n \<le> 32) \<or> n = 133 \<or> n = 160)"

text \<open>\<^verbatim>\<open>str.split()\<close> without arguments: the maximal runs of non-whitespace characters.\<close>

fun split_ws :: "string \<Rightarrow> string \<Rightarrow> string list" where
  "split_ws cur [] = (if cur = [] then [] else [cur])"
| "split_ws cur (c # cs) =
     (if isspace c then (if cur = [] then split_ws [] cs else cur # split_ws [] cs)
      else split_ws (cur @ [c]) cs)"

definition py_split :: "string \<Rightarrow> string list" where
  "py_split s = split_ws [] s"

text \<open>\<^verbatim>\<open>sep.join(xs)\<close>.\<close>

fun py_join :: "string \<Rightarrow> string list \<Rightarrow> string" where
  "py_join sep [] = []"
| "py_join sep [x] = x"
| "py_join sep (x # y # ys) = x @ sep @ py_join sep (y # ys)"

text \<open>\<^verbatim>\<open>needle in hay\<close> on strings: \<open>needle\<close> occurs as a contiguous run of \<open>hay\<close>.\<close>

fun is_prefix :: "string \<Rightarrow> string \<Rightarrow> bool" where
  "is_prefix [] ys = True"
| "is_prefix (x # xs) [] = False"
| "is_prefix (x # xs) (y # ys) = (x = y \<and> is_prefix xs ys)"

fun str_in :: "string \<Rightarrow> string \<Rightarrow> bool" where
  "str_in needle [] = (needle = [])"
| "str_in needle (c # cs) = (is_prefix needle (c # cs) \<or> str_in needle cs)"

text \<open>\<^verbatim>\<open>str(n)\<close> for an integer.\<close>

definition digit_char :: "nat \<Rightarrow> char" where
  "digit_char d = char_of (48 + d)"

fun str_nat :: "nat \<Rightarrow> string" where
  "str_nat n = (if n < 10 then [digit_char n] else str_nat (n div 10) @ [digit_char (n mod 10)])"

definition py_str :: "int \<Rightarrow> string" where
  "py_str i = (if i < 0 then CHR ''-'' # str_nat (nat (- i)) else str_nat (nat i))"

definition isdigit :: "char \<Rightarrow> bool" where
  "isdigit c = (let n = (of_char c :: nat) in 48 \<le> n \<and> n \<le> 57)"

definition digit_val :: "char \<Rightarrow> int" where
  "digit_val c = int (of_char c) - 48"

text \<open>
  \<^verbatim>\<open>int(s)\<close> for the texts the date pattern lets through: decimal digits, after the
  surrounding blanks that \<^verbatim>\<open>int\<close> ignores.
\<close>

definition py_int :: "string \<Rightarrow> int" where
  "py_int s = foldl (\<lambda>a c. 10 * a + digit_val c) 0 (dropWhile isspace s)"

text \<open>
  \<^verbatim>\<open>a / b\<close> on integers. The quotient is kept exact (a rational) where Python rounds it
  to a double; the two agree on every comparison and every rounding below unless the list
  of documents is longer than any database holds. The integers of an SQLite column have 64
  bits, so the quotient is never too large for a double.
\<close>

definition py_truediv :: "int \<Rightarrow> int \<Rightarrow> exn + rat" where
  "py_truediv a b = (if b = 0 then Inl ZeroDivisionError else Inr (of_int a / of_int b))"

text \<open>\<^verbatim>\<open>f'{q:.0f}'\<close>: the nearest integer, ties to even, and \<^verbatim>\<open>-0\<close> for a negative that rounds to zero.\<close>

definition round_half_even :: "rat \<Rightarrow> int" where
  "round_half_even q =
     (let f = \<lfloor>q\<rfloor>; r = q - of_int f
      in if r < 1 / 2 then f else if 1 / 2 < r then f + 1 else if even f then f else f + 1)"

definition fmt_0f :: "rat \<Rightarrow> string" where
  "fmt_0f q = (let n = round_half_even q in if n = 0 \<and> q < 0 then ''-0'' else py_str n)"

text \<open>The dash of the notes, U+2014, in its UTF-8 bytes.\<close>

definition em_dash :: string where
  "em_dash = [char_of (226::nat), char_of (128::nat), char_of (148::nat)]"

section \<open>Dates: \<^verbatim>\<open>datetime\<close> as \<^verbatim>\<open>compute_risk\<close> uses it\<close>

record datetime =
  year :: int
  month :: int
  day :: int
  hour :: int
  minute :: int
  second :: int
  microsecond :: int

definition is_leap :: "int \<Rightarrow> bool" where
  "is_leap y = (y mod 4 = 0 \<and> (y mod 100 \<noteq> 0 \<or> y mod 400 = 0))"

definition days_before_year :: "int \<Rightarrow> int" where
  "days_before_year y' = (let y = y' - 1 in y * 365 + y div 4 - y div 100 + y div 400)"

definition days_in_month :: "int \<Rightarrow> int \<Rightarrow> int" where
  "days_in_month y m =
     (if m = 2 \<and> is_leap y then 29
      else [31, 28, 31, 30, 31, 30, 31, 31, 30, 31, 30, 31] ! nat (m - 1))"

definition days_before_month :: "int \<Rightarrow> int \<Rightarrow> int" where
  "days_before_month y m =
     [0, 31, 59, 90, 120, 151, 181, 212, 243, 273, 304, 334] ! nat (m - 1)
       + (if 2 < m \<and> is_leap y then 1 else 0)"

definition ymd2ord :: "int \<Rightarrow> int \<Rightarrow> int \<Rightarrow> int" where
  "ymd2ord y m d = days_before_year y + days_before_month y m + d"

definition toordinal :: "datetime \<Rightarrow> int" where
  "toordinal t = ymd2ord (year t) (month t) (day t)"

text \<open>
  The constructor \<^verbatim>\<open>datetime(year, month, day)\<close>: midnight of that day, or
  \<^verbatim>\<open>ValueError\<close> when the three numbers are no calendar date.
\<close>

definition mk_datetime :: "int \<Rightarrow> int \<Rightarrow> int \<Rightarrow> exn + datetime" where
  "mk_datetime y m d =
     (if \<not> (1 \<le> y \<and> y \<le> 9999) then Inl ValueError
      else if \<not> (1 \<le> m \<and> m \<le> 12) then Inl ValueError
      else if \<not> (1 \<le> d \<and> d \<le> days_in_month y m) then Inl ValueError
      else Inr \<lparr>year = y, month = m, day = d, hour = 0, minute = 0, second = 0,
                microsecond = 0\<rparr>)"

text \<open>
  A reading of the clock is a \<open>datetime\<close> whose fields are in range; \<^verbatim>\<open>datetime.now()\<close>
  returns nothing else.
\<close>

definition valid_datetime :: "datetime \<Rightarrow> bool" where
  "valid_datetime t =
     (1 \<le> year t \<and> year t \<le> 9999 \<and> 1 \<le> month t \<and> month t \<le> 12
      \<and> 1 \<le> day t \<and> day t \<le> days_in_month (year t) (month t)
      \<and> 0 \<le> hour t \<and> hour t < 24 \<and> 0 \<le> minute t \<and> minute t < 60
      \<and> 0 \<le> second t \<and> second t < 60 \<and> 0 \<le> microsecond t \<and> microsecond t < 1000000)"

text \<open>
  \<^verbatim>\<open>(a - b).days\<close>: the difference is a \<^verbatim>\<open>timedelta\<close>, normalised so that its seconds and
  microseconds are not negative; \<^verbatim>\<open>days\<close> is what remains.
\<close>

definition timedelta_days :: "datetime \<Rightarrow> datetime \<Rightarrow> int" where
  "timedelta_days a b =
     (let days = toordinal a - toordinal b;
          secs = (second a + minute a * 60 + hour a * 3600)
                   - (second b + minute b * 60 + hour b * 3600);
          us = microsecond a - microsecond b
      in days + (secs + us div 1000000) div 86400)"

subsection \<open>\<^verbatim>\<open>datetime.strptime(s, '%Y-%m-%d')\<close>\<close>

text \<open>
  The format compiles to the regular expression
  \<^verbatim>\<open>(?P<Y>\d\d\d\d)-(?P<m>1[0-2]|0[1-9]|[1-9])-(?P<d>3[01]|[12]\d|0[1-9]|[1-9]| [1-9])\<close>,
  matched at the start of the text. An alternative is a function from the text to the
  piece it consumes and the rest; the alternatives of a group are tried in order, and a
  later one is taken when what follows the group fails.
\<close>

definition in_range :: "char \<Rightarrow> char \<Rightarrow> char \<Rightarrow> bool" where
  "in_range lo hi c = ((of_char lo :: nat) \<le> of_char c \<and> (of_char c :: nat) \<le> of_char hi)"

definition lit2 :: "(char \<Rightarrow> bool) \<Rightarrow> (char \<Rightarrow> bool) \<Rightarrow> string \<Rightarrow> (string \<times> string) option" where
  "lit2 p q s =
     (case s of a # b # r \<Rightarrow> if p a \<and> q b then Some ([a, b], r) else None | _ \<Rightarrow> None)"

definition lit1 :: "(char \<Rightarrow> bool) \<Rightarrow> string \<Rightarrow> (string \<times> string) option" where
  "lit1 p s = (case s of a # r \<Rightarrow> if p a then Some ([a], r) else None | _ \<Rightarrow> None)"

definition re_m :: "string \<Rightarrow> (string \<times> string) list" where
  "re_m s = List.map_filter (\<lambda>alt. alt s)
     [lit2 (\<lambda>c. c = CHR ''1'') (in_range CHR ''0'' CHR ''2''),
      lit2 (\<lambda>c. c = CHR ''0'') (in_range CHR ''1'' CHR ''9''),
      lit1 (in_range CHR ''1'' CHR ''9'')]"

definition re_d :: "string \<Rightarrow> (string \<times> string) list" where
  "re_d s = List.map_filter (\<lambda>alt. alt s)
     [lit2 (\<lambda>c. c = CHR ''3'') (in_range CHR ''0'' CHR ''1''),
      lit2 (in_range CHR ''1'' CHR ''2'') isdigit,
      lit2 (\<lambda>c. c = CHR ''0'') (in_range CHR ''1'' CHR ''9''),
      lit1 (in_range CHR ''1'' CHR ''9''),
      lit2 (\<lambda>c. c = CHR '' '') (in_range CHR ''1'' CHR ''9'')]"

text \<open>The first way through the pattern: the texts of the three groups and what is left over.\<close>

definition re_match_ymd :: "string \<Rightarrow> (string \<times> string \<times> string \<times> string) option" where
  "re_match_ymd s =
     (case s of
        y1 # y2 # y3 # y4 # dash # r1 \<Rightarrow>
          if isdigit y1 \<and> isdigit y2 \<and> isdigit y3 \<and> isdigit y4 \<and> dash = CHR ''-''
          then
            (case List.map_filter
                    (\<lambda>(mtxt, r2).
                       case r2 of
                         dash2 # r3 \<Rightarrow>
                           if dash2 = CHR ''-''
                           then (case re_d r3 of
                                   [] \<Rightarrow> None
                                 | (dtxt, r4) # _ \<Rightarrow> Some ([y1, y2, y3, y4], mtxt, dtxt, r4))
                           else None
                       | [] \<Rightarrow> None)
                    (re_m r1) of
               [] \<Rightarrow> None
             | found # _ \<Rightarrow> Some found)
          else None
      | _ \<Rightarrow> None)"

text \<open>
  \<^verbatim>\<open>strptime\<close> itself: \<^verbatim>\<open>TypeError\<close> when the argument is no string, \<^verbatim>\<open>ValueError\<close> when
  the pattern does not match, when text remains after the match, or when the numbers
  are no calendar date.
\<close>

definition strptime_ymd :: "string option \<Rightarrow> exn + datetime" where
  "strptime_ymd arg =
     (case arg of
        None \<Rightarrow> Inl TypeError
      | Some s \<Rightarrow>
          (case re_match_ymd s of
             None \<Rightarrow> Inl ValueError
           | Some (ytxt, mtxt, dtxt, rest) \<Rightarrow>
               if rest \<noteq> [] then Inl ValueError
               else mk_datetime (py_int ytxt) (py_int mtxt) (py_int dtxt)))"

section \<open>The rows the risk engine reads\<close>

text \<open>
  A row of table \<^verbatim>\<open>applications\<close>, with the columns that the risk engine and the two
  decision handlers read or write. Column \<^verbatim>\<open>risk_signals\<close> holds the JSON text of the
  signal list; the model keeps the list.
\<close>

record signal =
  factor :: string
  weight :: int
  notetext :: string

record app_row =
  dob :: "string option"
  email :: "string option"
  face_score :: "int option"
  otp_verified :: "int option"
  risk_score :: "int option"
  risk_level :: "string option"
  risk_signals :: "signal list option"
  risk_reason :: "string option"
  account_number :: "string option"
  ifsc :: "string option"
  status :: "string option"

text \<open>
  A row of table \<^verbatim>\<open>documents\<close>. Column \<^verbatim>\<open>tamper_flags\<close> holds the text that
  \<^verbatim>\<open>upload_document\<close>, its only writer, stores: \<^verbatim>\<open>json.dumps\<close> of a list of strings. The
  model keeps the list that \<^verbatim>\<open>json.loads\<close> reads back from it, and \<^term>\<open>None\<close> for a
  NULL or empty column.
\<close>

record doc_row =
  application_id :: string
  doc_type :: string
  confidence :: "int option"
  tamper_flags :: "string list option"

section \<open>The risk engine: \<^verbatim>\<open>compute_risk\<close>\<close>

text \<open>
  The source keeps a running \<^verbatim>\<open>score\<close> and a growing list \<^verbatim>\<open>signals\<close>; each rule below
  takes the pair and returns it updated.
\<close>

type_synonym acc = "int \<times> signal list"

definition append_signal :: "acc \<Rightarrow> int \<Rightarrow> string \<Rightarrow> int \<Rightarrow> string \<Rightarrow> acc" where
  "append_signal a penalty f w n =
     (fst a - penalty, snd a @ [\<lparr>factor = f, weight = w, notetext = n\<rparr>])"

text \<open>\<^verbatim>\<open>d['confidence'] or 50\<close>: NULL and 0 both give 50.\<close>

definition confidence_or_50 :: "doc_row \<Rightarrow> int" where
  "confidence_or_50 d = (case confidence d of None \<Rightarrow> 50 | Some c \<Rightarrow> if c = 0 then 50 else c)"

text \<open>Rule 1, OCR confidence. The division is the one place outside the \<^verbatim>\<open>try\<close> that can raise.\<close>

definition ocr_confidence_rule :: "doc_row list \<Rightarrow> acc \<Rightarrow> exn + acc" where
  "ocr_confidence_rule doc_rows a =
     (let confidences = map confidence_or_50 doc_rows
      in case py_truediv (sum_list confidences) (int (length confidences)) of
           Inl e \<Rightarrow> Inl e
         | Inr avg_conf \<Rightarrow>
             Inr (if 75 \<le> avg_conf
                  then append_signal a 0 ''OCR Confidence'' 0
                         (fmt_0f avg_conf @ ''% '' @ em_dash @ '' high quality document image'')
                  else if 50 \<le> avg_conf
                  then append_signal a 10 ''OCR Confidence'' (- 10)
                         (fmt_0f avg_conf @ ''% '' @ em_dash @ '' moderate quality'')
                  else append_signal a 25 ''OCR Confidence'' (- 25)
                         (fmt_0f avg_conf @ ''% '' @ em_dash @ '' low quality or illegible'')))"

text \<open>Rule 2, tamper flags of all the documents, duplicates kept.\<close>

definition flags_of :: "doc_row \<Rightarrow> string list" where
  "flags_of d = (case tamper_flags d of None \<Rightarrow> [] | Some fl \<Rightarrow> fl)"

definition tamper_rule :: "doc_row list \<Rightarrow> acc \<Rightarrow> acc" where
  "tamper_rule doc_rows a =
     (let all_flags = concat (map flags_of doc_rows)
      in if all_flags \<noteq> []
         then append_signal a (20 * int (length all_flags)) ''Tamper Detection''
                (- 20 * int (length all_flags)) (py_join ''; '' all_flags)
         else append_signal a 0 ''Tamper Detection'' 0 ''No anomalies detected'')"

text \<open>
  Rule 3, the age gate. The body of the \<^verbatim>\<open>try\<close> computes the age from the clock; the bare
  \<^verbatim>\<open>except\<close> takes every exception of \<^verbatim>\<open>strptime\<close>.
\<close>

definition age_of :: "datetime \<Rightarrow> datetime \<Rightarrow> int" where
  "age_of now born = timedelta_days now born div 365"

definition age_rule :: "datetime \<Rightarrow> app_row \<Rightarrow> acc \<Rightarrow> acc" where
  "age_rule now app a =
     (case strptime_ymd (dob app) of
        Inr born \<Rightarrow>
          (let age = age_of now born
           in if age < 18
              then append_signal a 100 ''Age Gate'' (- 100)
                     (''Applicant is '' @ py_str age @ '' '' @ em_dash @ '' below 18'')
              else if 18 \<le> age \<and> age \<le> 65
              then append_signal a 0 ''Age Gate'' 0
                     (''Age '' @ py_str age @ '' '' @ em_dash @ '' valid range'')
              else append_signal a 5 ''Age Gate'' (- 5)
                     (''Age '' @ py_str age @ '' '' @ em_dash @ '' senior applicant''))
      | Inl e \<Rightarrow> append_signal a 10 ''Age Gate'' (- 10) ''DOB parse error'')"

text \<open>Rule 4, face match; \<^verbatim>\<open>app_row['face_score'] or 0\<close>.\<close>

definition face_rule :: "app_row \<Rightarrow> acc \<Rightarrow> acc" where
  "face_rule app a =
     (let face = (case face_score app of None \<Rightarrow> 0 | Some f \<Rightarrow> f)
      in if 90 \<le> face
         then append_signal a 0 ''Biometric Match'' 0
                (py_str face @ ''% '' @ em_dash @ '' strong match'')
         else if 75 \<le> face
         then append_signal a 10 ''Biometric Match'' (- 10)
                (py_str face @ ''% '' @ em_dash @ '' acceptable'')
         else if 0 < face
         then append_signal a 30 ''Biometric Match'' (- 30)
                (py_str face @ ''% '' @ em_dash @ '' poor match'')
         else append_signal a 15 ''Biometric Match'' (- 15) ''No biometric data'')"

text \<open>Rule 5, the one-time passcode; the column is true when it is neither NULL nor 0.\<close>

definition otp_rule :: "app_row \<Rightarrow> acc \<Rightarrow> acc" where
  "otp_rule app a =
     (if (case otp_verified app of None \<Rightarrow> False | Some v \<Rightarrow> v \<noteq> 0)
      then append_signal a 0 ''OTP Verification'' 0 ''Mobile/email OTP verified''
      else append_signal a 20 ''OTP Verification'' (- 20) ''OTP not verified'')"

text \<open>Rule 6, the email; \<^verbatim>\<open>app_row['email'] or ''\<close>, and a substring test on the whole address.\<close>

definition disposable :: "string list" where
  "disposable = [''tempmail'', ''guerrillamail'', ''mailinator'', ''yopmail'', ''throwam'']"

definition email_rule :: "app_row \<Rightarrow> acc \<Rightarrow> acc" where
  "email_rule app a =
     (let email = (case email app of None \<Rightarrow> [] | Some e \<Rightarrow> e)
      in if list_ex (\<lambda>d. str_in d email) disposable
         then append_signal a 20 ''Email Trust'' (- 20) ''Disposable email detected''
         else if email \<noteq> []
         then append_signal a 0 ''Email Trust'' 0 ''Email domain OK''
         else a)"

definition level_of :: "int \<Rightarrow> string" where
  "level_of score = (if 70 \<le> score then ''Low'' else if 45 \<le> score then ''Medium'' else ''High'')"

definition reason_of :: "string \<Rightarrow> signal list \<Rightarrow> string" where
  "reason_of level signals =
     (let neg_notes = map notetext (filter (\<lambda>s. weight s < 0) signals);
          pos_notes = map notetext (filter (\<lambda>s. weight s = 0) signals)
      in if level = ''Low''
         then ''All verification checks passed. '' @ py_join ''. '' (take 3 pos_notes)
         else if level = ''Medium''
         then ''Partial verification with minor issues. '' @ py_join ''. '' neg_notes
         else ''Significant risk factors detected. '' @ py_join ''. '' neg_notes)"

text \<open>
  \<^verbatim>\<open>compute_risk(app_row, doc_rows)\<close>. The reading of the clock, \<^verbatim>\<open>datetime.now()\<close> inside
  the source, is the extra argument \<open>now\<close>. The result is the tuple
  \<^verbatim>\<open>(score, level, signals, reason)\<close>.
\<close>

definition compute_risk ::
  "datetime \<Rightarrow> app_row \<Rightarrow> doc_row list \<Rightarrow> exn + (int \<times> string \<times> signal list \<times> string)" where
  "compute_risk now app doc_rows =
     (case (if doc_rows \<noteq> []
            then (case ocr_confidence_rule doc_rows (100, []) of
                    Inl e \<Rightarrow> Inl e
                  | Inr a \<Rightarrow> Inr (tamper_rule doc_rows a))
            else Inr (100, [])) of
        Inl e \<Rightarrow> Inl e
      | Inr a \<Rightarrow>
          (let a = age_rule now app a;
               a = face_rule app a;
               a = otp_rule app a;
               a = email_rule app a;
               score = max 0 (min 100 (fst a));
               level = level_of score;
               signals = snd a
           in Inr (score, level, signals, reason_of level signals)))"

section \<open>Account numbers\<close>

text \<open>
  \<^verbatim>\<open>random.randint(a, b)\<close> draws from the generator; \<open>r\<close> is the raw number drawn, reduced
  to the range. The generator is the function \<open>draws\<close>, whose \<open>i\<close>-th value serves the
  \<open>i\<close>-th call.
\<close>

definition randint :: "int \<Rightarrow> int \<Rightarrow> nat \<Rightarrow> int" where
  "randint a b r = a + int r mod (b - a + 1)"

text \<open>\<^verbatim>\<open>''.join([str(random.randint(0,9)) for _ in range(12)])\<close>\<close>

definition random_digits :: "(nat \<Rightarrow> nat) \<Rightarrow> string" where
  "random_digits draws = concat (map (\<lambda>i. py_str (randint 0 9 (draws i))) [0..<12])"

text \<open>\<^verbatim>\<open>f"{n[:4]} {n[4:8]} {n[8:]}"\<close>\<close>

definition format_account :: "string \<Rightarrow> string" where
  "format_account n = take 4 n @ '' '' @ take 4 (drop 4 n) @ '' '' @ drop 8 n"

definition new_account_number :: "(nat \<Rightarrow> nat) \<Rightarrow> string" where
  "new_account_number draws = format_account (random_digits draws)"

text \<open>The format \<^verbatim>\<open>DDDD DDDD DDDD\<close>: three groups of four decimal digits, one blank between them.\<close>

definition account_format :: "string \<Rightarrow> bool" where
  "account_format s =
     (length s = 14 \<and> list_all isdigit (take 4 s) \<and> s ! 4 = CHR '' ''
      \<and> list_all isdigit (take 4 (drop 5 s)) \<and> s ! 9 = CHR '' ''
      \<and> list_all isdigit (drop 10 s))"

section \<open>The record store and the two handlers that write a decision\<close>

record decision_row =
  dec_application_id :: string
  admin_username :: string
  decision :: string
  dec_notes :: string
  ai_overridden :: int

text \<open>
  The database: table \<^verbatim>\<open>applications\<close> keyed by identifier, tables \<^verbatim>\<open>documents\<close> and
  \<^verbatim>\<open>admin_decisions\<close> in insertion order. Time stamps and the audit log are left out.
\<close>

record store =
  applications :: "string \<rightharpoonup> app_row"
  documents :: "doc_row list"
  admin_decisions :: "decision_row list"

datatype http_error = BadRequest400 | Unauthorized401 | NotFound404 | ServerError500

text \<open>The row that \<^verbatim>\<open>INSERT INTO applications(id,status,method,...)\<close> creates, with the column defaults.\<close>

definition blank_app_row :: app_row where
  "blank_app_row =
     \<lparr>dob = None, email = None, face_score = None, otp_verified = Some 0, risk_score = None,
      risk_level = None, risk_signals = None, risk_reason = None, account_number = None,
      ifsc = None, status = Some ''In Progress''\<rparr>"

record risk_response =
  resp_risk_score :: int
  resp_risk_level :: string
  resp_risk_reason :: string
  resp_signals :: "signal list"
  resp_status :: string
  resp_account_number :: "string option"
  resp_ifsc :: "string option"

text \<open>\<^verbatim>\<open>{'Low':'Approved','Medium':'Pending','High':'Escalated'}\<close>\<close>

definition status_of_level :: "string \<rightharpoonup> string" where
  "status_of_level =
     map_of [(''Low'', ''Approved''), (''Medium'', ''Pending''), (''High'', ''Escalated'')]"

text \<open>
  \<^verbatim>\<open>risk_evaluate\<close>, the handler of \<^verbatim>\<open>POST /api/risk/evaluate\<close>. \<open>sid\<close> is the identifier from
  the session or the request (\<^term>\<open>None\<close> or empty when there is none), \<open>fresh_id\<close> the
  identifier made up for a request without one. An exception that leaves the handler is
  answered with status 500 and nothing is committed.
\<close>

definition risk_evaluate ::
  "datetime \<Rightarrow> (nat \<Rightarrow> nat) \<Rightarrow> string \<Rightarrow> string option \<Rightarrow> store
     \<Rightarrow> store \<times> (http_error + risk_response)" where
  "risk_evaluate now draws fresh_id sid db =
     (let absent = (case sid of None \<Rightarrow> True | Some i \<Rightarrow> i = []);
          app_id = (if absent then fresh_id else the sid)
      in if absent \<and> applications db fresh_id \<noteq> None then (db, Inl ServerError500)
         else
           (let db1 = (if absent
                       then db\<lparr>applications := (applications db)(fresh_id \<mapsto> blank_app_row)\<rparr>
                       else db);
                doc_rows = filter (\<lambda>d. application_id d = app_id) (documents db1)
            in case applications db1 app_id of
                 None \<Rightarrow> (db1, Inl NotFound404)
               | Some app \<Rightarrow>
                   (case compute_risk now app doc_rows of
                      Inl e \<Rightarrow> (db1, Inl ServerError500)
                    | Inr (score, level, signals, reason) \<Rightarrow>
                        (let acct = (if level = ''Low'' \<or> level = ''Medium''
                                     then Some (new_account_number draws) else None);
                             code = (if level = ''Low'' \<or> level = ''Medium''
                                     then Some ''NXBA0001234'' else None)
                         in case status_of_level level of
                              None \<Rightarrow> (db1, Inl ServerError500)
                            | Some new_status \<Rightarrow>
                                (db1\<lparr>applications := (applications db1)(app_id \<mapsto>
                                       app\<lparr>risk_score := Some score, risk_level := Some level,
                                           risk_signals := Some signals,
                                           risk_reason := Some reason,
                                           account_number := acct, ifsc := code,
                                           status := Some new_status\<rparr>)\<rparr>,
                                 Inr \<lparr>resp_risk_score = score, resp_risk_level = level,
                                      resp_risk_reason = reason, resp_signals = signals,
                                      resp_status = new_status,
                                      resp_account_number = acct, resp_ifsc = code\<rparr>)))))"

record decision_response =
  new_status :: string
  dr_account_number :: "string option"
  dr_ai_overridden :: bool




section \<open>The OCR engine: \<^verbatim>\<open>run_ocr\<close>\<close>

record ocr_result =
  raw_text :: string
  ocr_name :: "string option"
  ocr_dob :: "string option"
  ocr_id_number :: "string option"
  ocr_confidence :: int
  ocr_tamper_flags :: "string list"

text \<open>
  The five regular expressions of \<^verbatim>\<open>run_ocr\<close>, by what they look for. Matching them is the
  work of library \<^verbatim>\<open>re\<close>, which \<open>run_ocr\<close> below takes as two arguments: \<open>re_match\<close>
  tells whether a pattern matches a line, \<open>re_search\<close> gives group 1 of the first match.
\<close>

datatype pattern = NamePattern | DobPattern | AadhaarPattern | PanPattern | PassportPattern

text \<open>\<^verbatim>\<open>str.strip()\<close>\<close>

definition strip :: "string \<Rightarrow> string" where
  "strip s = rev (dropWhile isspace (rev (dropWhile isspace s)))"

text \<open>\<^verbatim>\<open>str.splitlines()\<close>, for the line boundaries below code point 256.\<close>

definition is_linebreak :: "char \<Rightarrow> bool" where
  "is_linebreak c =
     (let n = (of_char c :: nat) in (10 \<le> n \<and> n \<le> 13) \<or> (28 \<le> n \<and> n \<le> 30) \<or> n = 133)"

fun splitlines_from :: "string \<Rightarrow> string \<Rightarrow> string list" where
  "splitlines_from cur [] = (if cur = [] then [] else [cur])"
| "splitlines_from cur [c] = (if is_linebreak c then [cur] else [cur @ [c]])"
| "splitlines_from cur (c # d # cs) =
     (if is_linebreak c
      then (if of_char c = (13::nat) \<and> of_char d = (10::nat)
            then cur # splitlines_from [] cs
            else cur # splitlines_from [] (d # cs))
      else splitlines_from (cur @ [c]) (d # cs))"

definition splitlines :: "string \<Rightarrow> string list" where
  "splitlines s = splitlines_from [] s"

text \<open>
  \<^verbatim>\<open>str.title()\<close> on ASCII letters, the only letters that the name pattern admits; other
  characters are left as they are and start a new word.
\<close>

definition is_upper :: "char \<Rightarrow> bool" where
  "is_upper c = (let n = (of_char c :: nat) in 65 \<le> n \<and> n \<le> 90)"

definition is_lower :: "char \<Rightarrow> bool" where
  "is_lower c = (let n = (of_char c :: nat) in 97 \<le> n \<and> n \<le> 122)"

definition to_upper :: "char \<Rightarrow> char" where
  "to_upper c = (if is_lower c then char_of (of_char c - (32::nat)) else c)"

definition to_lower :: "char \<Rightarrow> char" where
  "to_lower c = (if is_upper c then char_of (of_char c + (32::nat)) else c)"

fun title_from :: "bool \<Rightarrow> string \<Rightarrow> string" where
  "title_from prev_cased [] = []"
| "title_from prev_cased (c # cs) =
     (if is_upper c \<or> is_lower c
      then (if prev_cased then to_lower c else to_upper c) # title_from True cs
      else c # title_from False cs)"

definition title :: "string \<Rightarrow> string" where
  "title s = title_from False s"

text \<open>The loop over the lines that looks for a name.\<close>

fun find_name :: "(pattern \<Rightarrow> string \<Rightarrow> bool) \<Rightarrow> string list \<Rightarrow> string option" where
  "find_name re_match [] = None"
| "find_name re_match (l # ls) =
     (let line = strip l
      in if 2 \<le> length (py_split line) \<and> re_match NamePattern line then Some (title line)
         else find_name re_match ls)"

definition find_id_number ::
  "(pattern \<Rightarrow> string \<Rightarrow> string option) \<Rightarrow> string \<Rightarrow> string \<Rightarrow> string option" where
  "find_id_number re_search dtype text =
     (if dtype = ''Aadhaar'' then re_search AadhaarPattern text
      else if dtype = ''PAN'' then re_search PanPattern text
      else if dtype = ''Passport'' then re_search PassportPattern text
      else None)"

text \<open>
  \<^verbatim>\<open>run_ocr(file_path, doc_type)\<close>. \<open>ocr_available\<close> is the module flag \<^verbatim>\<open>OCR_AVAILABLE\<close>.
  \<open>scan\<close> is what opening the image and \<^verbatim>\<open>pytesseract.image_to_string\<close> give for the file:
  the recognised text, or on the left the message of the exception they raise. Nothing
  after them in the \<^verbatim>\<open>try\<close> raises.
\<close>

definition run_ocr ::
  "bool \<Rightarrow> (pattern \<Rightarrow> string \<Rightarrow> bool) \<Rightarrow> (pattern \<Rightarrow> string \<Rightarrow> string option)
     \<Rightarrow> string + string \<Rightarrow> string \<Rightarrow> ocr_result" where
  "run_ocr ocr_available re_match re_search scan dtype =
     (let result = \<lparr>raw_text = [], ocr_name = None, ocr_dob = None, ocr_id_number = None,
                    ocr_confidence = 0, ocr_tamper_flags = []\<rparr>
      in if \<not> ocr_available then result
         else
           (case scan of
              Inl msg \<Rightarrow> result\<lparr>ocr_tamper_flags := [''OCR processing error: '' @ msg]\<rparr>
            | Inr text \<Rightarrow>
                (let word_count = int (length (py_split text))
                 in \<lparr>raw_text = text,
                     ocr_name = find_name re_match (splitlines text),
                     ocr_dob = re_search DobPattern text,
                     ocr_id_number = find_id_number re_search dtype text,
                     ocr_confidence = min 95 (max 30 (word_count * 3)),
                     ocr_tamper_flags =
                       (if word_count < 5
                        then [''Very low text content '' @ em_dash
                                @ '' possible blank or corrupted document'']
                        else [])
                       @ (if 200 < word_count then [''Unusually high text density''] else [])\<rparr>)))"

text \<open>
  The number of whitespace-delimited tokens of a text, said without \<^verbatim>\<open>split\<close>: the number
  of places where a token begins, a character that is no whitespace and that starts the
  text or follows whitespace.
\<close>

fun token_starts :: "bool \<Rightarrow> string \<Rightarrow> nat" where
  "token_starts prev_space [] = 0"
| "token_starts prev_space (c # cs) =
     (if \<not> isspace c \<and> prev_space then 1 else 0) + token_starts (isspace c) cs"

definition token_count :: "string \<Rightarrow> nat" where
  "token_count s = token_starts True s"

section \<open>Notions for the proofs, and the scenarios of the specification\<close>

text \<open>
  What the rules keep invariant: the running score less the weights emitted so far, and
  that no weight is positive. \<open>doc_acc\<close> is the pair after the two document rules,
  \<open>final_acc\<close> the pair after all six.
\<close>

definition balance :: "acc \<Rightarrow> int" where
  "balance a = fst a - sum_list (map weight (snd a))"

definition nonpos :: "acc \<Rightarrow> bool" where
  "nonpos a = list_all (\<lambda>s. weight s \<le> 0) (snd a)"

definition doc_acc :: "doc_row list \<Rightarrow> acc" where
  "doc_acc doc_rows =
     (if doc_rows \<noteq> [] then tamper_rule doc_rows (projr (ocr_confidence_rule doc_rows (100, [])))
      else (100, []))"

definition final_acc :: "datetime \<Rightarrow> app_row \<Rightarrow> doc_row list \<Rightarrow> acc" where
  "final_acc now app doc_rows =
     email_rule app (otp_rule app (face_rule app (age_rule now app (doc_acc doc_rows))))"

text \<open>
  Scenario A of the specification: an applicant aged 30 at the time of evaluation, one
  clean document of confidence 85, biometric score 95, passcode verified, a trusted
  email domain. The other scenarios change single fields of it.
\<close>

definition scenario_now :: datetime where
  "scenario_now = \<lparr>year = 2026, month = 11, day = 4, hour = 10, minute = 3, second = 7,
                    microsecond = 55\<rparr>"

definition scenario_applicant :: app_row where
  "scenario_applicant =
     \<lparr>dob = Some ''1996-05-17'', email = Some ''asha@example.org'', face_score = Some 95,
      otp_verified = Some 1, risk_score = None, risk_level = None, risk_signals = None,
      risk_reason = None, account_number = None, ifsc = None, status = Some ''In Progress''\<rparr>"

definition scenario_document :: doc_row where
  "scenario_document =
     \<lparr>application_id = ''NXB-1A2B3C4D'', doc_type = ''PAN'', confidence = Some 85,
      tamper_flags = Some []\<rparr>"

text \<open>Reading a result of \<open>compute_risk\<close>: its signal list, and the penalty under one factor.\<close>

definition signals_of :: "exn + (int \<times> string \<times> signal list \<times> string) \<Rightarrow> signal list" where
  "signals_of r = (case r of Inl e \<Rightarrow> [] | Inr (score, level, signals, reason) \<Rightarrow> signals)"

definition penalty_of :: "string \<Rightarrow> signal list \<Rightarrow> int" where
  "penalty_of f signals = sum_list (map (\<lambda>s. - weight s) (filter (\<lambda>s. factor s = f) signals))"

text \<open>
  The specification's OCR rule in its own words: the arithmetic mean of the stored
  confidence values, and the penalty that the mean earns.
\<close>

definition spec_mean :: "int list \<Rightarrow> rat" where
  "spec_mean xs = of_int (sum_list xs) / of_int (int (length xs))"

definition spec_ocr_penalty :: "rat \<Rightarrow> int" where
  "spec_ocr_penalty avg = (if 75 \<le> avg then 0 else if 50 \<le> avg then 10 else 25)"



text \<open>Two more readings of the clock: late on the day of the scenario, and a year after it.\<close>

definition scenario_evening :: datetime where
  "scenario_evening = \<lparr>year = 2026, month = 11, day = 4, hour = 23, minute = 59, second = 59,
                        microsecond = 999999\<rparr>"

definition scenario_later :: datetime where
  "scenario_later = \<lparr>year = 2027, month = 11, day = 4, hour = 10, minute = 3, second = 7,
                      microsecond = 55\<rparr>"

text \<open>
  A generator for the scenarios, and a store that holds one application under the
  identifier \<^verbatim>\<open>NXB-1A2B3C4D\<close> with its documents.
\<close>

definition scenario_draws :: "nat \<Rightarrow> nat" where
  "scenario_draws i = 7 * i + 3"

definition store_with :: "app_row \<Rightarrow> doc_row list \<Rightarrow> store" where
  "store_with app docs =
     \<lparr>applications = [''NXB-1A2B3C4D'' \<mapsto> app], documents = docs, admin_decisions = []\<rparr>"

definition scenario_minor :: app_row where
  "scenario_minor = scenario_applicant\<lparr>dob := Some ''2009-06-01''\<rparr>"

definition scenario_unverified :: app_row where
  "scenario_unverified = scenario_applicant\<lparr>face_score := None, otp_verified := Some 0\<rparr>"

definition scenario_issued :: app_row where
  "scenario_issued = scenario_minor\<lparr>account_number := Some ''7742 8910 3351'',
                                     ifsc := Some ''NXBA0001''\<rparr>"


section \<open>Lemmas about the rules\<close>

lemma sum_list_neg: "sum_list (map (\<lambda>s. - f s) xs) = - sum_list (map f xs :: int list)"
  by (induction xs) simp_all

lemma ocr_confidence_rule_Inr:
  assumes "doc_rows \<noteq> []"
  shows "ocr_confidence_rule doc_rows a = Inr (projr (ocr_confidence_rule doc_rows a))"
proof -
  have "int (length (map confidence_or_50 doc_rows)) \<noteq> 0" using assms by simp
  then show ?thesis
    by (simp add: ocr_confidence_rule_def py_truediv_def Let_def)
qed

lemma compute_risk_eq:
  "compute_risk now app doc_rows =
     Inr (max 0 (min 100 (fst (final_acc now app doc_rows))),
          level_of (max 0 (min 100 (fst (final_acc now app doc_rows)))),
          snd (final_acc now app doc_rows),
          reason_of (level_of (max 0 (min 100 (fst (final_acc now app doc_rows)))))
            (snd (final_acc now app doc_rows)))"
proof (cases "doc_rows = []")
  case True
  then show ?thesis by (simp add: compute_risk_def final_acc_def doc_acc_def Let_def)
next
  case False
  from ocr_confidence_rule_Inr [OF False, of "(100, [])"]
  obtain a1 where a1: "ocr_confidence_rule doc_rows (100, []) = Inr a1" by blast
  show ?thesis using False a1
    by (simp add: compute_risk_def final_acc_def doc_acc_def Let_def)
qed

lemma balance_ocr:
  "doc_rows \<noteq> [] \<Longrightarrow> balance (projr (ocr_confidence_rule doc_rows a)) = balance a"
  by (simp add: ocr_confidence_rule_def py_truediv_def Let_def balance_def append_signal_def)

lemma balance_tamper: "balance (tamper_rule doc_rows a) = balance a"
  by (simp add: tamper_rule_def Let_def balance_def append_signal_def)

lemma balance_age: "balance (age_rule now app a) = balance a"
  by (simp add: age_rule_def Let_def balance_def append_signal_def split: sum.split)

lemma balance_face: "balance (face_rule app a) = balance a"
  by (simp add: face_rule_def Let_def balance_def append_signal_def)

lemma balance_otp: "balance (otp_rule app a) = balance a"
  by (simp add: otp_rule_def balance_def append_signal_def)

lemma balance_email: "balance (email_rule app a) = balance a"
  by (simp add: email_rule_def Let_def balance_def append_signal_def)

lemma balance_doc_acc: "balance (doc_acc doc_rows) = 100"
  by (simp add: doc_acc_def balance_tamper balance_ocr) (simp add: balance_def)

lemma balance_final_acc: "balance (final_acc now app doc_rows) = 100"
  by (simp add: final_acc_def balance_email balance_otp balance_face balance_age balance_doc_acc)

lemma nonpos_ocr:
  "doc_rows \<noteq> [] \<Longrightarrow> nonpos a \<Longrightarrow> nonpos (projr (ocr_confidence_rule doc_rows a))"
  by (simp add: ocr_confidence_rule_def py_truediv_def Let_def nonpos_def append_signal_def)

lemma nonpos_tamper: "nonpos a \<Longrightarrow> nonpos (tamper_rule doc_rows a)"
  by (simp add: tamper_rule_def Let_def nonpos_def append_signal_def)

lemma nonpos_age: "nonpos a \<Longrightarrow> nonpos (age_rule now app a)"
  by (simp add: age_rule_def Let_def nonpos_def append_signal_def split: sum.split)

lemma nonpos_face: "nonpos a \<Longrightarrow> nonpos (face_rule app a)"
  by (simp add: face_rule_def Let_def nonpos_def append_signal_def)

lemma nonpos_otp: "nonpos a \<Longrightarrow> nonpos (otp_rule app a)"
  by (simp add: otp_rule_def nonpos_def append_signal_def)

lemma nonpos_email: "nonpos a \<Longrightarrow> nonpos (email_rule app a)"
  by (simp add: email_rule_def Let_def nonpos_def append_signal_def)

lemma nonpos_doc_acc: "nonpos (doc_acc doc_rows)"
proof -
  have "nonpos (100, [])" by (simp add: nonpos_def)
  then show ?thesis by (simp add: doc_acc_def nonpos_tamper nonpos_ocr)
qed

lemma nonpos_final_acc: "nonpos (final_acc now app doc_rows)"
  by (simp add: final_acc_def nonpos_email nonpos_otp nonpos_face nonpos_age nonpos_doc_acc)

lemma fst_ocr_le:
  "doc_rows \<noteq> [] \<Longrightarrow> fst (projr (ocr_confidence_rule doc_rows a)) \<le> fst a"
  by (simp add: ocr_confidence_rule_def py_truediv_def Let_def append_signal_def)

lemma fst_tamper_le: "fst (tamper_rule doc_rows a) \<le> fst a"
  by (simp add: tamper_rule_def Let_def append_signal_def)

lemma fst_face_le: "fst (face_rule app a) \<le> fst a"
  by (simp add: face_rule_def Let_def append_signal_def)

lemma fst_otp_le: "fst (otp_rule app a) \<le> fst a"
  by (simp add: otp_rule_def append_signal_def)

lemma fst_email_le: "fst (email_rule app a) \<le> fst a"
  by (simp add: email_rule_def Let_def append_signal_def)

lemma fst_doc_acc_le: "fst (doc_acc doc_rows) \<le> 100"
proof (cases "doc_rows = []")
  case True
  then show ?thesis by (simp add: doc_acc_def)
next
  case False
  have "fst (tamper_rule doc_rows (projr (ocr_confidence_rule doc_rows (100, []))))
          \<le> fst (projr (ocr_confidence_rule doc_rows (100, [])))"
    by (rule fst_tamper_le)
  also have "\<dots> \<le> fst (100 :: int, [] :: signal list)" by (rule fst_ocr_le [OF False])
  finally show ?thesis using False by (simp add: doc_acc_def)
qed

lemma fst_age_minor:
  "strptime_ymd (dob app) = Inr born \<Longrightarrow> age_of now born < 18
     \<Longrightarrow> fst (age_rule now app a) = fst a - 100"
  by (simp add: age_rule_def Let_def append_signal_def)

lemma filter_factor_ocr:
  "doc_rows \<noteq> [] \<Longrightarrow> f \<noteq> ''OCR Confidence''
     \<Longrightarrow> filter (\<lambda>s. factor s = f) (snd (projr (ocr_confidence_rule doc_rows a)))
           = filter (\<lambda>s. factor s = f) (snd a)"
  by (auto simp add: ocr_confidence_rule_def py_truediv_def Let_def append_signal_def)

lemma filter_factor_tamper:
  "f \<noteq> ''Tamper Detection''
     \<Longrightarrow> filter (\<lambda>s. factor s = f) (snd (tamper_rule doc_rows a))
           = filter (\<lambda>s. factor s = f) (snd a)"
  by (auto simp add: tamper_rule_def Let_def append_signal_def)

lemma filter_factor_age:
  "f \<noteq> ''Age Gate''
     \<Longrightarrow> filter (\<lambda>s. factor s = f) (snd (age_rule now app a))
           = filter (\<lambda>s. factor s = f) (snd a)"
  by (auto simp add: age_rule_def Let_def append_signal_def split: sum.split)

lemma filter_factor_face:
  "f \<noteq> ''Biometric Match''
     \<Longrightarrow> filter (\<lambda>s. factor s = f) (snd (face_rule app a))
           = filter (\<lambda>s. factor s = f) (snd a)"
  by (auto simp add: face_rule_def Let_def append_signal_def)

lemma filter_factor_otp:
  "f \<noteq> ''OTP Verification''
     \<Longrightarrow> filter (\<lambda>s. factor s = f) (snd (otp_rule app a))
           = filter (\<lambda>s. factor s = f) (snd a)"
  by (auto simp add: otp_rule_def append_signal_def)

lemma filter_factor_email:
  "f \<noteq> ''Email Trust''
     \<Longrightarrow> filter (\<lambda>s. factor s = f) (snd (email_rule app a))
           = filter (\<lambda>s. factor s = f) (snd a)"
  by (auto simp add: email_rule_def Let_def append_signal_def)

lemma filter_factor_doc_acc:
  assumes "f \<noteq> ''OCR Confidence''" and "f \<noteq> ''Tamper Detection''"
  shows "filter (\<lambda>s. factor s = f) (snd (doc_acc doc_rows)) = []"
proof (cases "doc_rows = []")
  case True
  then show ?thesis by (simp add: doc_acc_def)
next
  case False
  then show ?thesis
    by (simp add: doc_acc_def filter_factor_tamper [OF assms(2)]
          filter_factor_ocr [OF False assms(1)])
qed

lemma age_rule_parse_error:
  "strptime_ymd (dob app) = Inl e
     \<Longrightarrow> age_rule now app a = append_signal a 10 ''Age Gate'' (- 10) ''DOB parse error''"
  by (simp add: age_rule_def)

lemma age_signals_final_acc:
  "filter (\<lambda>s. factor s = ''Age Gate'') (snd (final_acc now app doc_rows))
     = filter (\<lambda>s. factor s = ''Age Gate'') (snd (age_rule now app (doc_acc doc_rows)))"
  by (simp add: final_acc_def filter_factor_email filter_factor_otp filter_factor_face)

lemma reason_of_nonempty: "reason_of level signals \<noteq> []"
  by (simp add: reason_of_def Let_def)

lemma snd_age_rule_nonempty: "snd (age_rule now app a) \<noteq> []"
  by (simp add: age_rule_def Let_def append_signal_def split: sum.split)

lemma snd_grows_face: "snd a \<noteq> [] \<Longrightarrow> snd (face_rule app a) \<noteq> []"
  by (simp add: face_rule_def Let_def append_signal_def)

lemma snd_grows_otp: "snd a \<noteq> [] \<Longrightarrow> snd (otp_rule app a) \<noteq> []"
  by (simp add: otp_rule_def Let_def append_signal_def)

lemma snd_grows_email: "snd a \<noteq> [] \<Longrightarrow> snd (email_rule app a) \<noteq> []"
  by (simp add: email_rule_def Let_def append_signal_def)

lemma snd_final_acc_nonempty: "snd (final_acc now app doc_rows) \<noteq> []"
  by (simp add: final_acc_def snd_grows_email snd_grows_otp snd_grows_face snd_age_rule_nonempty)

lemma mk_datetime_midnight:
  "mk_datetime y m d = Inr t
     \<Longrightarrow> hour t = 0 \<and> minute t = 0 \<and> second t = 0 \<and> microsecond t = 0"
  by (auto simp add: mk_datetime_def split: if_splits)

lemma strptime_midnight:
  "strptime_ymd s = Inr t
     \<Longrightarrow> hour t = 0 \<and> minute t = 0 \<and> second t = 0 \<and> microsecond t = 0"
  by (auto simp add: strptime_ymd_def split: option.splits if_splits prod.splits
        dest: mk_datetime_midnight)

lemma timedelta_days_midnight:
  assumes "valid_datetime now"
    and "hour born = 0 \<and> minute born = 0 \<and> second born = 0 \<and> microsecond born = 0"
  shows "timedelta_days now born = toordinal now - toordinal born"
proof -
  have us: "microsecond now div 1000000 = 0"
    using assms(1) by (simp add: valid_datetime_def)
  have "0 \<le> second now + minute now * 60 + hour now * 3600"
    and "second now + minute now * 60 + hour now * 3600 < 86400"
    using assms(1) by (simp_all add: valid_datetime_def)
  then have "(second now + minute now * 60 + hour now * 3600) div 86400 = 0"
    by simp
  then show ?thesis using us assms(2) by (simp add: timedelta_days_def Let_def)
qed

lemma age_rule_same_day:
  assumes "valid_datetime now1" and "valid_datetime now2"
    and "year now1 = year now2" and "month now1 = month now2" and "day now1 = day now2"
  shows "age_rule now1 app a = age_rule now2 app a"
proof (cases "strptime_ymd (dob app)")
  case (Inl e)
  then show ?thesis by (simp add: age_rule_def)
next
  case (Inr born)
  have ord: "toordinal now1 = toordinal now2"
    using assms(3-5) by (simp add: toordinal_def)
  have "age_of now1 born = age_of now2 born"
    using timedelta_days_midnight [OF assms(1) strptime_midnight [OF Inr]]
      timedelta_days_midnight [OF assms(2) strptime_midnight [OF Inr]] ord
    by (simp add: age_of_def)
  then show ?thesis using Inr by (simp add: age_rule_def)
qed

lemma ocr_signals_ocr_rule:
  "doc_rows \<noteq> []
   \<Longrightarrow> \<exists>n. snd (projr (ocr_confidence_rule doc_rows a))
           = snd a @ [\<lparr>factor = ''OCR Confidence'',
                        weight = - spec_ocr_penalty (spec_mean (map confidence_or_50 doc_rows)),
                        notetext = n\<rparr>]"
  by (simp add: ocr_confidence_rule_def py_truediv_def Let_def append_signal_def
        spec_ocr_penalty_def spec_mean_def)

lemma ocr_signals_final_acc:
  "filter (\<lambda>s. factor s = ''OCR Confidence'') (snd (final_acc now app doc_rows))
     = filter (\<lambda>s. factor s = ''OCR Confidence'') (snd (doc_acc doc_rows))"
  by (simp add: final_acc_def filter_factor_email filter_factor_otp filter_factor_face
        filter_factor_age)

lemma tamper_signals_final_acc:
  "filter (\<lambda>s. factor s = ''Tamper Detection'') (snd (final_acc now app doc_rows))
     = filter (\<lambda>s. factor s = ''Tamper Detection'') (snd (doc_acc doc_rows))"
  by (simp add: final_acc_def filter_factor_email filter_factor_otp filter_factor_face
        filter_factor_age)




lemma length_split_ws:
  "length (split_ws cur s)
     = (if cur = [] then token_starts True s else 1 + token_starts False s)"
  by (induction s arbitrary: cur) auto

lemma word_count_is_token_count: "length (py_split s) = token_count s"
  by (simp add: py_split_def token_count_def length_split_ws)

section \<open>Lemmas about account numbers and the handlers\<close>

lemma randint_digit: "0 \<le> randint 0 9 r \<and> randint 0 9 r \<le> 9"
  by (simp add: randint_def)

lemma of_char_digit_char: "n < 10 \<Longrightarrow> (of_char (digit_char n) :: nat) = 48 + n"
  by (simp add: digit_char_def)

lemma py_str_digit:
  assumes "0 \<le> i" and "i \<le> 9"
  shows "\<exists>c. py_str i = [c] \<and> isdigit c"
proof -
  have n: "nat i < 10" using assms by simp
  then have "py_str i = [digit_char (nat i)]" using assms by (simp add: py_str_def)
  moreover have "isdigit (digit_char (nat i))"
    using of_char_digit_char [OF n] n by (simp add: isdigit_def)
  ultimately show ?thesis by blast
qed

lemma concat_digits:
  assumes "\<And>i. \<exists>c. f i = [c] \<and> isdigit c"
  shows "length (concat (map f xs)) = length xs \<and> list_all isdigit (concat (map f xs))"
proof (induction xs)
  case Nil
  show ?case by simp
next
  case (Cons x xs)
  from assms [of x] obtain c where "f x = [c]" and "isdigit c" by blast
  with Cons show ?case by simp
qed

lemma random_digits_shape:
  "length (random_digits draws) = 12 \<and> list_all isdigit (random_digits draws)"
proof -
  have "\<And>i. \<exists>c. py_str (randint 0 9 (draws i)) = [c] \<and> isdigit c"
    using py_str_digit randint_digit by blast
  from concat_digits [of "\<lambda>i. py_str (randint 0 9 (draws i))" "[0..<12]", OF this]
  show ?thesis by (simp add: random_digits_def)
qed

lemma account_format_format_account:
  assumes "length n = 12" and "list_all isdigit n"
  shows "account_format (format_account n)"
proof -
  have a: "list_all isdigit (take 4 n)" and b: "list_all isdigit (take 4 (drop 4 n))"
    and c: "list_all isdigit (drop 8 n)"
    using assms(2) by (auto simp: list_all_iff dest: in_set_takeD in_set_dropD)
  have la: "length (take 4 n) = 4" and lb: "length (take 4 (drop 4 n)) = 4"
    and lc: "length (drop 8 n) = 4"
    using assms(1) by simp_all
  define x where "x = take 4 n"
  define y where "y = take 4 (drop 4 n)"
  define z where "z = drop 8 n"
  have f: "format_account n = x @ '' '' @ y @ '' '' @ z"
    by (simp add: format_account_def x_def y_def z_def)
  have lx: "length x = 4" and ly: "length y = 4" and lz: "length z = 4"
    using la lb lc by (simp_all add: x_def y_def z_def)
  have dx: "list_all isdigit x" and dy: "list_all isdigit y" and dz: "list_all isdigit z"
    using a b c by (simp_all add: x_def y_def z_def)
  show ?thesis
    unfolding f account_format_def using lx ly lz dx dy dz
    by (simp add: nth_append)
qed

lemma account_format_new: "account_format (new_account_number draws)"
  using random_digits_shape [of draws]
  by (simp add: new_account_number_def account_format_format_account)

lemma level_of_cases:
  "level_of sc = ''Low'' \<or> level_of sc = ''Medium'' \<or> level_of sc = ''High''"
  by (simp add: level_of_def)

lemma risk_evaluate_existing:
  assumes "sid = Some app_id" and "app_id \<noteq> []" and "applications db app_id = Some app"
    and "compute_risk now app (filter (\<lambda>d. application_id d = app_id) (documents db))
           = Inr (score, level, signals, reason)"
    and "status_of_level level = Some st"
  shows "risk_evaluate now draws fresh_id sid db =
     (db\<lparr>applications := (applications db)(app_id \<mapsto>
          app\<lparr>risk_score := Some score, risk_level := Some level,
              risk_signals := Some signals, risk_reason := Some reason,
              account_number := (if level = ''Low'' \<or> level = ''Medium''
                                 then Some (new_account_number draws) else None),
              ifsc := (if level = ''Low'' \<or> level = ''Medium''
                       then Some ''NXBA0001234'' else None),
              status := Some st\<rparr>)\<rparr>,
      Inr \<lparr>resp_risk_score = score, resp_risk_level = level,
           resp_risk_reason = reason, resp_signals = signals,
           resp_status = st,
           resp_account_number = (if level = ''Low'' \<or> level = ''Medium''
                                  then Some (new_account_number draws) else None),
           resp_ifsc = (if level = ''Low'' \<or> level = ''Medium''
                        then Some ''NXBA0001234'' else None)\<rparr>)"
  using assms by (simp add: risk_evaluate_def Let_def)

lemma status_of_level_simps:
  "status_of_level ''Low'' = Some ''Approved''"
  "status_of_level ''Medium'' = Some ''Pending''"
  "status_of_level ''High'' = Some ''Escalated''"
  by (simp_all add: status_of_level_def)

lemma store_with_lookup: "applications (store_with app docs) ''NXB-1A2B3C4D'' = Some app"
  by (simp add: store_with_def)




section \<open>The claims\<close>

text \<open>
  Claim C2. For every applicant row and list of document rows, \<open>compute_risk\<close> returns,
  and its score is 100 less the sum of the penalties clamped to the range from 0 to
  100, a penalty being the negated weight of an emitted signal and never negative. The
  score lies between 0 and 100, and the tier follows from the score alone: Low from 70,
  Medium from 45 up to 69, High below 45.
\<close>

theorem score_is_clamped_penalty_sum:
  "\<exists>score level signals reason.
     compute_risk now app doc_rows = Inr (score, level, signals, reason)
     \<and> score = max 0 (min 100 (100 - sum_list (map (\<lambda>s. - weight s) signals)))
     \<and> (\<forall>s \<in> set signals. 0 \<le> - weight s)
     \<and> 0 \<le> score \<and> score \<le> 100
     \<and> (70 \<le> score \<longrightarrow> level = ''Low'')
     \<and> (45 \<le> score \<and> score < 70 \<longrightarrow> level = ''Medium'')
     \<and> (score < 45 \<longrightarrow> level = ''High'')"
proof -
  let ?A = "final_acc now app doc_rows"
  have neg: "sum_list (map (\<lambda>s. - weight s) (snd ?A)) = - sum_list (map weight (snd ?A))"
    by (rule sum_list_neg)
  have "fst ?A = 100 + sum_list (map weight (snd ?A))"
    using balance_final_acc [of now app doc_rows] by (simp add: balance_def)
  then have sum: "fst ?A = 100 - sum_list (map (\<lambda>s. - weight s) (snd ?A))"
    using neg by simp
  have pos: "\<forall>s \<in> set (snd ?A). 0 \<le> - weight s"
    using nonpos_final_acc [of now app doc_rows] by (simp add: nonpos_def list_all_iff)
  define sc where "sc = max 0 (min 100 (fst ?A))"
  have lv: "(70 \<le> sc \<longrightarrow> level_of sc = ''Low'')
            \<and> (45 \<le> sc \<and> sc < 70 \<longrightarrow> level_of sc = ''Medium'')
            \<and> (sc < 45 \<longrightarrow> level_of sc = ''High'')"
    by (simp add: level_of_def)
  have rng: "0 \<le> sc \<and> sc \<le> 100" by (simp add: sc_def)
  have run: "compute_risk now app doc_rows
               = Inr (sc, level_of sc, snd ?A, reason_of (level_of sc) (snd ?A))"
    unfolding sc_def by (rule compute_risk_eq)
  have eq: "sc = max 0 (min 100 (100 - sum_list (map (\<lambda>s. - weight s) (snd ?A))))"
    unfolding sc_def using sum by simp
  from run eq pos rng lv show ?thesis by blast
qed

theorem score_is_clamped_penalty_sum_witness:
  "\<exists>level signals reason.
     compute_risk scenario_now (scenario_applicant\<lparr>face_score := None, otp_verified := Some 0\<rparr>)
         [scenario_document\<lparr>confidence := Some 0\<rparr>]
       = Inr (55, level, signals, reason)
     \<and> 45 \<le> (55::int) \<and> (55::int) < 70 \<and> level = ''Medium''"
proof -
  let ?app = "scenario_applicant\<lparr>face_score := None, otp_verified := Some 0\<rparr>"
  let ?docs = "[scenario_document\<lparr>confidence := Some 0\<rparr>]"
  from score_is_clamped_penalty_sum [of scenario_now ?app ?docs]
  obtain score level signals reason where
    run: "compute_risk scenario_now ?app ?docs = Inr (score, level, signals, reason)"
    and med: "45 \<le> score \<and> score < 70 \<longrightarrow> level = ''Medium''"
    by blast
  have "fst (projr (compute_risk scenario_now ?app ?docs)) = 55" by code_simp
  with run have sc: "score = 55" by simp
  with med have "level = ''Medium''" by simp
  with run sc show ?thesis by simp
qed

text \<open>
  Claim C3. Whenever the date of birth parses and the computed age is below 18, the
  score is 0 and the tier is High, whatever the documents and the other fields of the
  applicant are: the penalty of 100 cannot be made up, since no rule adds to the score.
\<close>

theorem minor_is_high:
  assumes "strptime_ymd (dob app) = Inr born" and "age_of now born < 18"
  shows "\<exists>signals reason. compute_risk now app doc_rows = Inr (0, ''High'', signals, reason)"
proof -
  let ?a0 = "doc_acc doc_rows"
  let ?a1 = "age_rule now app ?a0"
  let ?a2 = "face_rule app ?a1"
  let ?a3 = "otp_rule app ?a2"
  have "fst (final_acc now app doc_rows) \<le> fst ?a3"
    unfolding final_acc_def by (rule fst_email_le)
  also have "\<dots> \<le> fst ?a2" by (rule fst_otp_le)
  also have "\<dots> \<le> fst ?a1" by (rule fst_face_le)
  also have "\<dots> = fst ?a0 - 100" by (rule fst_age_minor [OF assms])
  also have "\<dots> \<le> 0" using fst_doc_acc_le [of doc_rows] by simp
  finally have "max 0 (min 100 (fst (final_acc now app doc_rows))) = 0" by simp
  then show ?thesis
    by (simp add: compute_risk_eq level_of_def)
qed

theorem minor_is_high_witness:
  "strptime_ymd (dob (scenario_applicant\<lparr>dob := Some ''2009-06-01''\<rparr>))
     = Inr \<lparr>year = 2009, month = 6, day = 1, hour = 0, minute = 0, second = 0, microsecond = 0\<rparr>
   \<and> age_of scenario_now
        \<lparr>year = 2009, month = 6, day = 1, hour = 0, minute = 0, second = 0, microsecond = 0\<rparr> = 17
   \<and> (\<exists>signals reason.
         compute_risk scenario_now (scenario_applicant\<lparr>dob := Some ''2009-06-01''\<rparr>)
           [scenario_document] = Inr (0, ''High'', signals, reason))"
proof -
  let ?born = "\<lparr>year = 2009, month = 6, day = 1, hour = 0, minute = 0, second = 0,
                 microsecond = 0\<rparr>"
  have p: "strptime_ymd (dob (scenario_applicant\<lparr>dob := Some ''2009-06-01''\<rparr>)) = Inr ?born"
    by code_simp
  have a: "age_of scenario_now ?born = 17" by code_simp
  then have lt: "age_of scenario_now ?born < 18" by simp
  from minor_is_high [OF p lt, of "[scenario_document]"] p a show ?thesis by simp
qed

text \<open>
  Claim C8. \<open>compute_risk\<close> returns a result for every applicant row and every list of
  document rows: a score from 0 to 100, one of the three tiers, a signal list and a
  rationale, neither empty. When \<open>strptime\<close> raises on the date of birth, whether the
  column is NULL or its text is no date, the only Age Gate signal is the one of weight
  -10 with the note \<^verbatim>\<open>DOB parse error\<close>.
\<close>

theorem compute_risk_never_raises:
  "\<exists>score level signals reason.
     compute_risk now app doc_rows = Inr (score, level, signals, reason)
     \<and> 0 \<le> score \<and> score \<le> 100
     \<and> (level = ''Low'' \<or> level = ''Medium'' \<or> level = ''High'')
     \<and> signals \<noteq> [] \<and> reason \<noteq> []
     \<and> (strptime_ymd (dob app) = Inl e \<longrightarrow>
          filter (\<lambda>s. factor s = ''Age Gate'') signals
            = [\<lparr>factor = ''Age Gate'', weight = - 10, notetext = ''DOB parse error''\<rparr>])"
proof -
  let ?A = "final_acc now app doc_rows"
  define sc where "sc = max 0 (min 100 (fst ?A))"
  have run: "compute_risk now app doc_rows
               = Inr (sc, level_of sc, snd ?A, reason_of (level_of sc) (snd ?A))"
    unfolding sc_def by (rule compute_risk_eq)
  have rng: "0 \<le> sc \<and> sc \<le> 100" by (simp add: sc_def)
  have lv: "level_of sc = ''Low'' \<or> level_of sc = ''Medium'' \<or> level_of sc = ''High''"
    by (simp add: level_of_def)
  have age: "strptime_ymd (dob app) = Inl e \<longrightarrow>
          filter (\<lambda>s. factor s = ''Age Gate'') (snd ?A)
            = [\<lparr>factor = ''Age Gate'', weight = - 10, notetext = ''DOB parse error''\<rparr>]"
  proof
    assume err: "strptime_ymd (dob app) = Inl e"
    have "filter (\<lambda>s. factor s = ''Age Gate'') (snd (doc_acc doc_rows)) = []"
      by (rule filter_factor_doc_acc) simp_all
    then show "filter (\<lambda>s. factor s = ''Age Gate'') (snd ?A)
            = [\<lparr>factor = ''Age Gate'', weight = - 10, notetext = ''DOB parse error''\<rparr>]"
      by (simp add: age_signals_final_acc age_rule_parse_error [OF err] append_signal_def)
  qed
  from run rng lv snd_final_acc_nonempty [of now app doc_rows]
    reason_of_nonempty [of "level_of sc" "snd ?A"] age
  show ?thesis by blast
qed

theorem compute_risk_never_raises_witness:
  "strptime_ymd (dob (scenario_applicant\<lparr>dob := Some ''17/05/1996''\<rparr>)) = Inl ValueError
   \<and> strptime_ymd (dob (scenario_applicant\<lparr>dob := None\<rparr>)) = Inl TypeError
   \<and> (\<exists>score level signals reason.
        compute_risk scenario_now (scenario_applicant\<lparr>dob := Some ''17/05/1996''\<rparr>) []
          = Inr (score, level, signals, reason)
        \<and> filter (\<lambda>s. factor s = ''Age Gate'') signals
            = [\<lparr>factor = ''Age Gate'', weight = - 10, notetext = ''DOB parse error''\<rparr>])
   \<and> (\<exists>score level signals reason.
        compute_risk scenario_now (scenario_applicant\<lparr>dob := None\<rparr>) []
          = Inr (score, level, signals, reason)
        \<and> filter (\<lambda>s. factor s = ''Age Gate'') signals
            = [\<lparr>factor = ''Age Gate'', weight = - 10, notetext = ''DOB parse error''\<rparr>])"
proof -
  have e1: "strptime_ymd (dob (scenario_applicant\<lparr>dob := Some ''17/05/1996''\<rparr>)) = Inl ValueError"
    by code_simp
  have e2: "strptime_ymd (dob (scenario_applicant\<lparr>dob := None\<rparr>)) = Inl TypeError"
    by code_simp
  from compute_risk_never_raises
         [of scenario_now "scenario_applicant\<lparr>dob := Some ''17/05/1996''\<rparr>" "[]" ValueError]
       compute_risk_never_raises
         [of scenario_now "scenario_applicant\<lparr>dob := None\<rparr>" "[]" TypeError]
       e1 e2
  show ?thesis by blast
qed

text \<open>
  Claim C9, as amended. \<open>compute_risk\<close> reads the clock, so its result belongs to the
  inputs and the day of the call: two calls with the same applicant row and document
  rows, at any two readings of the clock on the same calendar day, give the same score,
  tier, signal list and rationale.
\<close>

theorem same_day_same_result:
  assumes "valid_datetime now1" and "valid_datetime now2"
    and "year now1 = year now2" and "month now1 = month now2" and "day now1 = day now2"
  shows "compute_risk now1 app doc_rows = compute_risk now2 app doc_rows"
  by (simp add: compute_risk_eq final_acc_def age_rule_same_day [OF assms])

theorem same_day_same_result_witness:
  "valid_datetime scenario_now \<and> valid_datetime scenario_evening
   \<and> year scenario_now = year scenario_evening
   \<and> month scenario_now = month scenario_evening
   \<and> day scenario_now = day scenario_evening
   \<and> compute_risk scenario_now scenario_applicant [scenario_document]
       = compute_risk scenario_evening scenario_applicant [scenario_document]"
proof -
  have v1: "valid_datetime scenario_now" by code_simp
  have v2: "valid_datetime scenario_evening" by code_simp
  have y: "year scenario_now = year scenario_evening"
    by (simp add: scenario_now_def scenario_evening_def)
  have m: "month scenario_now = month scenario_evening"
    by (simp add: scenario_now_def scenario_evening_def)
  have d: "day scenario_now = day scenario_evening"
    by (simp add: scenario_now_def scenario_evening_def)
  from same_day_same_result [OF v1 v2 y m d, of scenario_applicant "[scenario_document]"]
    v1 v2 y m d
  show ?thesis by simp
qed

text \<open>
  Claim C9 as stated fails: the same applicant row and document rows, scored on
  4 November 2026 and again a year later, give score 0 and score 100, the applicant
  having turned 18 in between.
\<close>

theorem clock_changes_result_counterexample:
  "compute_risk scenario_now (scenario_applicant\<lparr>dob := Some ''2009-06-01''\<rparr>)
      [scenario_document]
   \<noteq> compute_risk scenario_later (scenario_applicant\<lparr>dob := Some ''2009-06-01''\<rparr>)
      [scenario_document]"
proof -
  have a: "fst (projr (compute_risk scenario_now
             (scenario_applicant\<lparr>dob := Some ''2009-06-01''\<rparr>) [scenario_document])) = 0"
    by code_simp
  have b: "fst (projr (compute_risk scenario_later
             (scenario_applicant\<lparr>dob := Some ''2009-06-01''\<rparr>) [scenario_document])) = 100"
    by code_simp
  show ?thesis
  proof
    assume "compute_risk scenario_now (scenario_applicant\<lparr>dob := Some ''2009-06-01''\<rparr>)
              [scenario_document]
            = compute_risk scenario_later (scenario_applicant\<lparr>dob := Some ''2009-06-01''\<rparr>)
              [scenario_document]"
    with a b show False by simp
  qed
qed

text \<open>
  Claim C4, as amended. When at least one document exists, the one OCR Confidence signal
  carries the penalty that the mean of the documents' confidence values earns (0 from
  75, 10 from 50, 25 below), where a stored confidence of 0 or NULL counts as 50. When no
  document exists, neither an OCR Confidence nor a Tamper Detection signal is emitted,
  and the signals and the score are those of the four remaining rules started at 100.
\<close>

theorem ocr_penalty_from_defaulted_mean:
  "\<exists>score level signals reason.
     compute_risk now app doc_rows = Inr (score, level, signals, reason)
     \<and> (doc_rows \<noteq> [] \<longrightarrow>
          (\<exists>n. filter (\<lambda>s. factor s = ''OCR Confidence'') signals
                 = [\<lparr>factor = ''OCR Confidence'',
                     weight = - spec_ocr_penalty (spec_mean (map confidence_or_50 doc_rows)),
                     notetext = n\<rparr>]))
     \<and> (doc_rows = [] \<longrightarrow>
          filter (\<lambda>s. factor s = ''OCR Confidence'') signals = []
          \<and> filter (\<lambda>s. factor s = ''Tamper Detection'') signals = []
          \<and> signals = snd (email_rule app (otp_rule app (face_rule app
                              (age_rule now app (100, [])))))
          \<and> score = max 0 (min 100 (fst (email_rule app (otp_rule app (face_rule app
                              (age_rule now app (100, []))))))))"
proof -
  let ?A = "final_acc now app doc_rows"
  define sc where "sc = max 0 (min 100 (fst ?A))"
  have run: "compute_risk now app doc_rows
               = Inr (sc, level_of sc, snd ?A, reason_of (level_of sc) (snd ?A))"
    unfolding sc_def by (rule compute_risk_eq)
  have some: "doc_rows \<noteq> [] \<longrightarrow>
          (\<exists>n. filter (\<lambda>s. factor s = ''OCR Confidence'') (snd ?A)
                 = [\<lparr>factor = ''OCR Confidence'',
                     weight = - spec_ocr_penalty (spec_mean (map confidence_or_50 doc_rows)),
                     notetext = n\<rparr>])"
  proof
    assume ne: "doc_rows \<noteq> []"
    from ocr_signals_ocr_rule [OF ne, of "(100, [])"]
    obtain n where n: "snd (projr (ocr_confidence_rule doc_rows (100, [])))
           = [\<lparr>factor = ''OCR Confidence'',
                weight = - spec_ocr_penalty (spec_mean (map confidence_or_50 doc_rows)),
                notetext = n\<rparr>]"
      by auto
    have "filter (\<lambda>s. factor s = ''OCR Confidence'') (snd (doc_acc doc_rows))
            = filter (\<lambda>s. factor s = ''OCR Confidence'')
                (snd (projr (ocr_confidence_rule doc_rows (100, []))))"
      using ne by (simp add: doc_acc_def filter_factor_tamper)
    with n show "\<exists>n. filter (\<lambda>s. factor s = ''OCR Confidence'') (snd ?A)
                 = [\<lparr>factor = ''OCR Confidence'',
                     weight = - spec_ocr_penalty (spec_mean (map confidence_or_50 doc_rows)),
                     notetext = n\<rparr>]"
      by (simp add: ocr_signals_final_acc)
  qed
  have none: "doc_rows = [] \<longrightarrow>
          filter (\<lambda>s. factor s = ''OCR Confidence'') (snd ?A) = []
          \<and> filter (\<lambda>s. factor s = ''Tamper Detection'') (snd ?A) = []
          \<and> snd ?A = snd (email_rule app (otp_rule app (face_rule app
                              (age_rule now app (100, [])))))
          \<and> sc = max 0 (min 100 (fst (email_rule app (otp_rule app (face_rule app
                              (age_rule now app (100, [])))))))"
  proof
    assume e: "doc_rows = []"
    have f1: "filter (\<lambda>s. factor s = ''OCR Confidence'') (snd ?A) = []"
      using e by (simp add: ocr_signals_final_acc doc_acc_def)
    have f2: "filter (\<lambda>s. factor s = ''Tamper Detection'') (snd ?A) = []"
      using e by (simp add: tamper_signals_final_acc doc_acc_def)
    have f3: "?A = email_rule app (otp_rule app (face_rule app (age_rule now app (100, []))))"
      using e by (simp add: final_acc_def doc_acc_def)
    from f1 f2 f3 show "filter (\<lambda>s. factor s = ''OCR Confidence'') (snd ?A) = []
          \<and> filter (\<lambda>s. factor s = ''Tamper Detection'') (snd ?A) = []
          \<and> snd ?A = snd (email_rule app (otp_rule app (face_rule app
                              (age_rule now app (100, [])))))
          \<and> sc = max 0 (min 100 (fst (email_rule app (otp_rule app (face_rule app
                              (age_rule now app (100, [])))))))"
      unfolding sc_def by simp
  qed
  from run some none show ?thesis by blast
qed

theorem ocr_penalty_from_defaulted_mean_witness:
  "[scenario_document\<lparr>confidence := Some 0\<rparr>, scenario_document\<lparr>confidence := Some 40\<rparr>] \<noteq> []
   \<and> spec_mean (map confidence_or_50
        [scenario_document\<lparr>confidence := Some 0\<rparr>, scenario_document\<lparr>confidence := Some 40\<rparr>])
       = 45
   \<and> penalty_of ''OCR Confidence'' (signals_of (compute_risk scenario_now scenario_applicant
        [scenario_document\<lparr>confidence := Some 0\<rparr>, scenario_document\<lparr>confidence := Some 40\<rparr>]))
       = 25
   \<and> penalty_of ''OCR Confidence'' (signals_of (compute_risk scenario_now scenario_applicant []))
       = 0
   \<and> penalty_of ''Tamper Detection'' (signals_of (compute_risk scenario_now scenario_applicant []))
       = 0"
proof -
  let ?docs = "[scenario_document\<lparr>confidence := Some 0\<rparr>,
                scenario_document\<lparr>confidence := Some 40\<rparr>]"
  have ne: "?docs \<noteq> []" by simp
  have m: "spec_mean (map confidence_or_50 ?docs) = 45" by code_simp
  have p: "spec_ocr_penalty 45 = 25" by code_simp
  from ocr_penalty_from_defaulted_mean [of scenario_now scenario_applicant ?docs] ne
  obtain score level signals reason n where
    r1: "compute_risk scenario_now scenario_applicant ?docs = Inr (score, level, signals, reason)"
    and f1: "filter (\<lambda>s. factor s = ''OCR Confidence'') signals
                 = [\<lparr>factor = ''OCR Confidence'',
                     weight = - spec_ocr_penalty (spec_mean (map confidence_or_50 ?docs)),
                     notetext = n\<rparr>]"
    by blast
  have a: "penalty_of ''OCR Confidence'' (signals_of (compute_risk scenario_now
             scenario_applicant ?docs)) = 25"
    unfolding r1 using f1 m p by (simp add: penalty_of_def signals_of_def)
  from ocr_penalty_from_defaulted_mean [of scenario_now scenario_applicant "[]"]
  obtain score2 level2 signals2 reason2 where
    r2: "compute_risk scenario_now scenario_applicant [] = Inr (score2, level2, signals2, reason2)"
    and f2: "filter (\<lambda>s. factor s = ''OCR Confidence'') signals2 = []"
    and f3: "filter (\<lambda>s. factor s = ''Tamper Detection'') signals2 = []"
    by blast
  have b: "penalty_of ''OCR Confidence'' (signals_of (compute_risk scenario_now
             scenario_applicant [])) = 0"
    unfolding r2 using f2 by (simp add: penalty_of_def signals_of_def)
  have c: "penalty_of ''Tamper Detection'' (signals_of (compute_risk scenario_now
             scenario_applicant [])) = 0"
    unfolding r2 using f3 by (simp add: penalty_of_def signals_of_def)
  from ne m a b c show ?thesis by blast
qed

text \<open>
  Claim C4 as stated fails: for one document whose stored confidence is 0 the mean of
  the stored values is 0, which earns 25, and the engine takes 10.
\<close>

theorem zero_confidence_counts_as_50_counterexample:
  "confidence (scenario_document\<lparr>confidence := Some 0\<rparr>) = Some 0
   \<and> spec_ocr_penalty (spec_mean [0]) = 25
   \<and> penalty_of ''OCR Confidence'' (signals_of (compute_risk scenario_now scenario_applicant
        [scenario_document\<lparr>confidence := Some 0\<rparr>])) = 10"
  by code_simp




text \<open>
  Claim C10. On the path of \<open>run_ocr\<close> where the OCR library is there and gives a text,
  the confidence is \<open>min 95 (max 30 (3 * n))\<close>, \<open>n\<close> being the number of
  whitespace-delimited tokens of the text, and so lies between 30 and 95.
\<close>

theorem ocr_confidence_formula:
  "ocr_confidence (run_ocr True re_match re_search (Inr text) dtype)
     = min 95 (max 30 (int (token_count text) * 3))
   \<and> 30 \<le> ocr_confidence (run_ocr True re_match re_search (Inr text) dtype)
   \<and> ocr_confidence (run_ocr True re_match re_search (Inr text) dtype) \<le> 95"
  by (simp add: run_ocr_def Let_def word_count_is_token_count)

theorem ocr_confidence_formula_witness:
  "token_count ''NAME Asha Rao DOB 17/05/1996 PAN ABCDE1234F'' = 7
   \<and> ocr_confidence (run_ocr True (\<lambda>p l. False) (\<lambda>p t. None)
        (Inr ''NAME Asha Rao DOB 17/05/1996 PAN ABCDE1234F'') ''PAN'') = 30
   \<and> token_count '' a b c d e f g h i j k l m n o p q r s t u v w x y z 1 2 3 4 5 6 '' = 32
   \<and> ocr_confidence (run_ocr True (\<lambda>p l. False) (\<lambda>p t. None)
        (Inr '' a b c d e f g h i j k l m n o p q r s t u v w x y z 1 2 3 4 5 6 '') ''PAN'') = 95"
proof -
  have a: "token_count ''NAME Asha Rao DOB 17/05/1996 PAN ABCDE1234F'' = 7" by code_simp
  have b: "token_count '' a b c d e f g h i j k l m n o p q r s t u v w x y z 1 2 3 4 5 6 '' = 32"
    by code_simp
  from ocr_confidence_formula [of "\<lambda>p l. False" "\<lambda>p t. None"
         "''NAME Asha Rao DOB 17/05/1996 PAN ABCDE1234F''" "''PAN''"]
       ocr_confidence_formula [of "\<lambda>p l. False" "\<lambda>p t. None"
         "'' a b c d e f g h i j k l m n o p q r s t u v w x y z 1 2 3 4 5 6 ''" "''PAN''"]
       a b
  show ?thesis by simp
qed

text \<open>
  Claim C1, as amended. For every evaluation of an existing application the handler
  answers with the tier that \<open>compute_risk\<close> gives and maps it so: Low to status Approved
  with an account number and the routing code, Medium to status Pending, also with an
  account number and the routing code, High to status Escalated with neither. An issued
  account number is twelve decimal digits in three groups of four, one blank between
  the groups.
\<close>

theorem decision_by_tier:
  assumes "sid = Some app_id" and "app_id \<noteq> []" and "applications db app_id = Some app"
  shows "\<exists>db' r score signals reason.
     risk_evaluate now draws fresh_id sid db = (db', Inr r)
     \<and> compute_risk now app (filter (\<lambda>d. application_id d = app_id) (documents db))
           = Inr (score, resp_risk_level r, signals, reason)
     \<and> (resp_risk_level r = ''Low'' \<or> resp_risk_level r = ''Medium''
          \<or> resp_risk_level r = ''High'')
     \<and> (resp_risk_level r = ''Low'' \<longrightarrow>
           resp_status r = ''Approved''
           \<and> resp_account_number r = Some (new_account_number draws)
           \<and> resp_ifsc r = Some ''NXBA0001234'')
     \<and> (resp_risk_level r = ''Medium'' \<longrightarrow>
           resp_status r = ''Pending''
           \<and> resp_account_number r = Some (new_account_number draws)
           \<and> resp_ifsc r = Some ''NXBA0001234'')
     \<and> (resp_risk_level r = ''High'' \<longrightarrow>
           resp_status r = ''Escalated''
           \<and> resp_account_number r = None \<and> resp_ifsc r = None)
     \<and> account_format (new_account_number draws)"
proof -
  let ?docs = "filter (\<lambda>d. application_id d = app_id) (documents db)"
  obtain score level signals reason where
    run: "compute_risk now app ?docs = Inr (score, level, signals, reason)"
    and lv: "level = level_of score"
    using compute_risk_eq [of now app ?docs] by blast
  from lv level_of_cases [of score]
  consider "level = ''Low''" | "level = ''Medium''" | "level = ''High''" by auto
  then show ?thesis
  proof cases
    case 1
    from risk_evaluate_existing [OF assms run, of "''Approved''" draws fresh_id] 1 run
      account_format_new [of draws]
    show ?thesis by (simp add: status_of_level_simps)
  next
    case 2
    from risk_evaluate_existing [OF assms run, of "''Pending''" draws fresh_id] 2 run
      account_format_new [of draws]
    show ?thesis by (simp add: status_of_level_simps)
  next
    case 3
    from risk_evaluate_existing [OF assms run, of "''Escalated''" draws fresh_id] 3 run
      account_format_new [of draws]
    show ?thesis by (simp add: status_of_level_simps)
  qed
qed

theorem decision_by_tier_witness:
  "applications (store_with scenario_applicant [scenario_document]) ''NXB-1A2B3C4D''
     = Some scenario_applicant
   \<and> resp_risk_level (projr (snd (risk_evaluate scenario_now scenario_draws ''NXB-0F0F0F0F''
        (Some ''NXB-1A2B3C4D'') (store_with scenario_applicant [scenario_document])))) = ''Low''
   \<and> resp_status (projr (snd (risk_evaluate scenario_now scenario_draws ''NXB-0F0F0F0F''
        (Some ''NXB-1A2B3C4D'') (store_with scenario_applicant [scenario_document]))))
       = ''Approved''
   \<and> resp_account_number (projr (snd (risk_evaluate scenario_now scenario_draws ''NXB-0F0F0F0F''
        (Some ''NXB-1A2B3C4D'') (store_with scenario_applicant [scenario_document]))))
       = Some ''3074 1852 9630''
   \<and> resp_risk_level (projr (snd (risk_evaluate scenario_now scenario_draws ''NXB-0F0F0F0F''
        (Some ''NXB-1A2B3C4D'') (store_with scenario_minor [scenario_document])))) = ''High''
   \<and> resp_status (projr (snd (risk_evaluate scenario_now scenario_draws ''NXB-0F0F0F0F''
        (Some ''NXB-1A2B3C4D'') (store_with scenario_minor [scenario_document]))))
       = ''Escalated''
   \<and> resp_account_number (projr (snd (risk_evaluate scenario_now scenario_draws ''NXB-0F0F0F0F''
        (Some ''NXB-1A2B3C4D'') (store_with scenario_minor [scenario_document])))) = None"
proof -
  let ?id = "''NXB-1A2B3C4D''"
  let ?low = "risk_evaluate scenario_now scenario_draws ''NXB-0F0F0F0F'' (Some ?id)
                (store_with scenario_applicant [scenario_document])"
  let ?high = "risk_evaluate scenario_now scenario_draws ''NXB-0F0F0F0F'' (Some ?id)
                (store_with scenario_minor [scenario_document])"
  have ne: "?id \<noteq> []" by simp
  have l: "resp_risk_level (projr (snd ?low)) = ''Low''" by code_simp
  have h: "resp_risk_level (projr (snd ?high)) = ''High''" by code_simp
  have n: "new_account_number scenario_draws = ''3074 1852 9630''" by code_simp
  from decision_by_tier [where now = scenario_now and draws = scenario_draws
         and fresh_id = "''NXB-0F0F0F0F''", OF refl ne
         store_with_lookup [of scenario_applicant "[scenario_document]"]] l n
  have a: "resp_status (projr (snd ?low)) = ''Approved''
           \<and> resp_account_number (projr (snd ?low)) = Some ''3074 1852 9630''"
    by auto
  from decision_by_tier [where now = scenario_now and draws = scenario_draws
         and fresh_id = "''NXB-0F0F0F0F''", OF refl ne
         store_with_lookup [of scenario_minor "[scenario_document]"]] h
  have b: "resp_status (projr (snd ?high)) = ''Escalated''
           \<and> resp_account_number (projr (snd ?high)) = None"
    by auto
  from store_with_lookup [of scenario_applicant "[scenario_document]"] l a h b
  show ?thesis by blast
qed

text \<open>
  Claim C1 as stated fails: an application evaluated at score 55, tier Medium, is set to
  Pending and is issued an account number and the routing code.
\<close>

theorem medium_gets_account_counterexample:
  "resp_risk_level (projr (snd (risk_evaluate scenario_now scenario_draws ''NXB-0F0F0F0F''
        (Some ''NXB-1A2B3C4D'')
        (store_with scenario_unverified [scenario_document\<lparr>confidence := Some 0\<rparr>]))))
     = ''Medium''
   \<and> resp_status (projr (snd (risk_evaluate scenario_now scenario_draws ''NXB-0F0F0F0F''
        (Some ''NXB-1A2B3C4D'')
        (store_with scenario_unverified [scenario_document\<lparr>confidence := Some 0\<rparr>]))))
       = ''Pending''
   \<and> resp_account_number (projr (snd (risk_evaluate scenario_now scenario_draws ''NXB-0F0F0F0F''
        (Some ''NXB-1A2B3C4D'')
        (store_with scenario_unverified [scenario_document\<lparr>confidence := Some 0\<rparr>]))))
       = Some ''3074 1852 9630''
   \<and> resp_ifsc (projr (snd (risk_evaluate scenario_now scenario_draws ''NXB-0F0F0F0F''
        (Some ''NXB-1A2B3C4D'')
        (store_with scenario_unverified [scenario_document\<lparr>confidence := Some 0\<rparr>]))))
       = Some ''NXBA0001234''"
  by code_simp



text \<open>
  Claim C7. Every evaluation of an existing application writes the account number and
  the routing code of the stored row anew, whatever they were: both are NULL when the
  tier is High, and the freshly drawn account number and the routing code when the tier
  is Low or Medium.
\<close>

theorem evaluation_overwrites_account:
  assumes "sid = Some app_id" and "app_id \<noteq> []" and "applications db app_id = Some app"
  shows "\<exists>db' r app'.
     risk_evaluate now draws fresh_id sid db = (db', Inr r)
     \<and> applications db' app_id = Some app'
     \<and> risk_level app' = Some (resp_risk_level r)
     \<and> (resp_risk_level r = ''Low'' \<or> resp_risk_level r = ''Medium''
          \<or> resp_risk_level r = ''High'')
     \<and> (resp_risk_level r = ''High'' \<longrightarrow> account_number app' = None \<and> ifsc app' = None)
     \<and> (resp_risk_level r = ''Low'' \<or> resp_risk_level r = ''Medium'' \<longrightarrow>
           account_number app' = Some (new_account_number draws)
           \<and> ifsc app' = Some ''NXBA0001234'')"
proof -
  let ?docs = "filter (\<lambda>d. application_id d = app_id) (documents db)"
  obtain score level signals reason where
    run: "compute_risk now app ?docs = Inr (score, level, signals, reason)"
    and lv: "level = level_of score"
    using compute_risk_eq [of now app ?docs] by blast
  from lv level_of_cases [of score]
  consider "level = ''Low''" | "level = ''Medium''" | "level = ''High''" by auto
  then show ?thesis
  proof cases
    case 1
    from risk_evaluate_existing [OF assms run, of "''Approved''" draws fresh_id] 1
    show ?thesis by (simp add: status_of_level_simps)
  next
    case 2
    from risk_evaluate_existing [OF assms run, of "''Pending''" draws fresh_id] 2
    show ?thesis by (simp add: status_of_level_simps)
  next
    case 3
    from risk_evaluate_existing [OF assms run, of "''Escalated''" draws fresh_id] 3
    show ?thesis by (simp add: status_of_level_simps)
  qed
qed

theorem evaluation_overwrites_account_witness:
  "applications (store_with scenario_issued [scenario_document]) ''NXB-1A2B3C4D''
     = Some scenario_issued
   \<and> account_number scenario_issued = Some ''7742 8910 3351''
   \<and> resp_risk_level (projr (snd (risk_evaluate scenario_now scenario_draws ''NXB-0F0F0F0F''
        (Some ''NXB-1A2B3C4D'') (store_with scenario_issued [scenario_document])))) = ''High''
   \<and> account_number (the (applications (fst (risk_evaluate scenario_now scenario_draws
        ''NXB-0F0F0F0F'' (Some ''NXB-1A2B3C4D'')
        (store_with scenario_issued [scenario_document]))) ''NXB-1A2B3C4D'')) = None
   \<and> resp_risk_level (projr (snd (risk_evaluate scenario_later scenario_draws ''NXB-0F0F0F0F''
        (Some ''NXB-1A2B3C4D'') (store_with scenario_issued [scenario_document])))) = ''Low''
   \<and> account_number (the (applications (fst (risk_evaluate scenario_later scenario_draws
        ''NXB-0F0F0F0F'' (Some ''NXB-1A2B3C4D'')
        (store_with scenario_issued [scenario_document]))) ''NXB-1A2B3C4D''))
       = Some ''3074 1852 9630''"
proof -
  let ?id = "''NXB-1A2B3C4D''"
  let ?db = "store_with scenario_issued [scenario_document]"
  let ?high = "risk_evaluate scenario_now scenario_draws ''NXB-0F0F0F0F'' (Some ?id) ?db"
  let ?low = "risk_evaluate scenario_later scenario_draws ''NXB-0F0F0F0F'' (Some ?id) ?db"
  have ne: "?id \<noteq> []" by simp
  have old: "account_number scenario_issued = Some ''7742 8910 3351''"
    by (simp add: scenario_issued_def)
  have h: "resp_risk_level (projr (snd ?high)) = ''High''" by code_simp
  have l: "resp_risk_level (projr (snd ?low)) = ''Low''" by code_simp
  have n: "new_account_number scenario_draws = ''3074 1852 9630''" by code_simp
  from evaluation_overwrites_account [where now = scenario_now and draws = scenario_draws
         and fresh_id = "''NXB-0F0F0F0F''", OF refl ne
         store_with_lookup [of scenario_issued "[scenario_document]"]] h
  have a: "account_number (the (applications (fst ?high) ?id)) = None" by auto
  from evaluation_overwrites_account [where now = scenario_later and draws = scenario_draws
         and fresh_id = "''NXB-0F0F0F0F''", OF refl ne
         store_with_lookup [of scenario_issued "[scenario_document]"]] l n
  have b: "account_number (the (applications (fst ?low) ?id)) = Some ''3074 1852 9630''"
    by auto
  from store_with_lookup [of scenario_issued "[scenario_document]"] old h a l b
  show ?thesis by blast
qed

end
